theory Spec2Isabelle
  imports Complex_Main "HOL-Library.Word"
begin

section \<open>UpChunk: a resumable, chunked upload client over a growing byte source\<close>

text \<open>
  The class \<^verbatim>\<open>UpChunk\<close> is event driven: its methods run to completion, and
  everything that happens later (a timer of \<^verbatim>\<open>setTimeout\<close>, the settling of a
  request, a call of the producer) is a new turn of the event loop. The model follows
  that: every method is a function from the object's state to its new state, the
  pending timers and outstanding requests are part of the state, and the environment
  chooses which turn comes next (\<open>fire\<close>). The observers' handlers are outside the
  model: a dispatched event is recorded in the history of the object, and its handlers
  do not call back into the object while it is dispatched.
\<close>

subsection \<open>Numbers, strings and blobs\<close>

text \<open>
  The numbers the class computes with are byte counts (non-negative integers far below
  \<open>2^53\<close>, where doubles are exact) and quotients of them. A quotient is kept as an
  exact rational; division by zero gives \<^verbatim>\<open>NaN\<close> or \<^verbatim>\<open>Infinity\<close> as in JavaScript.
\<close>

datatype number = Num rat | Infinity | NaN

definition number_div :: "nat \<Rightarrow> nat \<Rightarrow> number" where
  "number_div a b =
     (if b = 0 then (if a = 0 then NaN else Infinity) else Num (of_nat a / of_nat b))"

fun Math_round :: "number \<Rightarrow> number" where
  "Math_round (Num q) = Num (of_int \<lfloor>q + 1 / 2\<rfloor>)"
| "Math_round Infinity = Infinity"
| "Math_round NaN = NaN"

fun number_times :: "number \<Rightarrow> rat \<Rightarrow> number" where
  "number_times (Num q) k = Num (q * k)"
| "number_times Infinity k = Infinity"
| "number_times NaN k = NaN"

text \<open>Decimal rendering of an integer inside a template literal.\<close>

definition digit :: "nat \<Rightarrow> char" where
  "digit d = ''0123456789'' ! d"

fun show_nat :: "nat \<Rightarrow> string" where
  "show_nat n = (if n < 10 then [digit n] else show_nat (n div 10) @ [digit (n mod 10)])"

declare show_nat.simps [simp del]

definition show_int :: "int \<Rightarrow> string" where
  "show_int i = (if i < 0 then ''-'' @ show_nat (nat (- i)) else show_nat (nat i))"

text \<open>
  A \<^verbatim>\<open>Blob\<close> is its byte sequence, and \<^verbatim>\<open>new Blob([a, b])\<close> concatenates.
  \<^verbatim>\<open>blob.slice(start, end)\<close> follows the File API: a negative offset counts from the
  end, both offsets are clamped to the size, and the span is empty when the end is not
  after the start.
\<close>

type_synonym byte = "8 word"
type_synonym blob = "byte list"

definition slice :: "blob \<Rightarrow> int \<Rightarrow> int \<Rightarrow> blob" where
  "slice b start end =
     (let sz = int (length b);
          relativeStart = (if start < 0 then max (sz + start) 0 else min start sz);
          relativeEnd = (if end < 0 then max (sz + end) 0 else min end sz);
          span = max (relativeEnd - relativeStart) 0
      in take (nat span) (drop (nat relativeStart) b))"

subsection \<open>Constants\<close>

definition SUCCESSFUL_CHUNK_UPLOAD_CODES :: "nat list" where
  "SUCCESSFUL_CHUNK_UPLOAD_CODES = [200, 201, 202, 204, 308]"

definition TEMPORARY_ERROR_CODES :: "nat list" where
  "TEMPORARY_ERROR_CODES = [408, 502, 503, 504]"

definition MIN_CHUNK_SIZE :: int where
  "MIN_CHUNK_SIZE = 256 * 1024"

subsection \<open>Events and requests\<close>

datatype event_name =
  EvData | EvAttempt | EvAttemptFailure | EvError | EvOffline | EvOnline | EvProgress | EvSuccess

text \<open>
  The \<^verbatim>\<open>detail\<close> of a dispatched event. The \<^verbatim>\<open>error\<close> event of \<^verbatim>\<open>manageRetries\<close>
  names its chunk field \<^verbatim>\<open>chunk\<close>, the one of \<^verbatim>\<open>sendChunks\<close> \<^verbatim>\<open>chunkNumber\<close>;
  they are two constructors.
\<close>

datatype detail =
    NoDetail
  | AttemptDetail (chunkNumber: nat) (chunkSize: rat)
  | AttemptFailureDetail string nat int
  | RetriesExhaustedDetail string nat int
  | ServerErrorDetail string nat int
  | ProgressDetail number

record request =
  req_headers :: "string \<rightharpoonup> string"
  req_url :: "string option"
  req_method :: string
  req_body :: blob

datatype action =
    Dispatch event_name detail
  | Xhr request

datatype response = Status nat | NetworkError

subsection \<open>The object\<close>

datatype endpoint = Url string | Resolver

record options =
  opt_endpoint :: endpoint
  opt_headers :: "(string \<rightharpoonup> string) option"
  opt_maxChunkSize :: "int option"
  opt_attempts :: "int option"
  opt_delayBeforeAttempt :: "rat option"

text \<open>
  The fields of the class, then the part of the event loop that belongs to the object:
  whether the browser's \<^verbatim>\<open>window\<close> exists, the reaction that starts the loop once
  the endpoint is resolved (\<open>starting\<close>), the pending \<^verbatim>\<open>checkAndResolve\<close> timers
  (\<open>polls\<close>), the pending retry timers with their delay in milliseconds (\<open>retries\<close>),
  the requests that have not settled (\<open>inflight\<close>), and what the object has done so far,
  in order (\<open>out\<close>). A field that is \<^verbatim>\<open>undefined\<close> until first assigned is an option.
\<close>

record upchunk =
  endpoint :: endpoint
  headers :: "string \<rightharpoonup> string"
  maxChunkSize :: int
  attempts :: int
  delayBeforeAttempt :: rat
  chunk :: "blob option"
  chunkCount :: nat
  maxChunkByteSize :: int
  endpointValue :: "string option"
  attemptCount :: int
  offline :: bool
  paused :: bool
  blob :: "blob option"
  allChunksReceived :: bool
  lastIndex :: nat
  hasWindow :: bool
  starting :: bool
  polls :: nat
  retries :: "rat list"
  inflight :: nat
  out :: "action list"

datatype error = TypeError string

subsection \<open>Construction\<close>

text \<open>
  \<^verbatim>\<open>validateOptions\<close> reads the fields after the defaults are filled in
  (\<^verbatim>\<open>options.maxChunkSize || 5120\<close>: an absent or zero value takes the default). The
  options are statically typed, so the \<^verbatim>\<open>typeof\<close> tests are left out. The chunk
  size and the attempt count are integers here: a fractional \<^verbatim>\<open>maxChunkSize\<close> fails
  the \<^verbatim>\<open>% 256\<close> test anyway.
\<close>

definition or_default :: "'a::zero option \<Rightarrow> 'a \<Rightarrow> 'a" where
  "or_default v d = (case v of None \<Rightarrow> d | Some x \<Rightarrow> if x = 0 then d else x)"

definition validateOptions :: "endpoint \<Rightarrow> int \<Rightarrow> int \<Rightarrow> rat \<Rightarrow> error option" where
  "validateOptions ep mcs att dba =
     (if ep = Url [] then
        Some (TypeError ''endpoint must be defined as a string or a function that returns a promise'')
      else if mcs \<noteq> 0 \<and> (mcs \<le> 0 \<or> mcs mod 256 \<noteq> 0) then
        Some (TypeError ''chunkSize must be a positive number in multiples of 256'')
      else if att \<noteq> 0 \<and> att \<le> 0 then
        Some (TypeError ''retries must be a positive number'')
      else if dba \<noteq> 0 \<and> dba < 0 then
        Some (TypeError ''delayBeforeAttempt must be a positive number'')
      else None)"

definition constructor :: "bool \<Rightarrow> options \<Rightarrow> error + upchunk" where
  "constructor window opts =
     (let mcs = or_default (opt_maxChunkSize opts) 5120;
          att = or_default (opt_attempts opts) 5;
          dba = or_default (opt_delayBeforeAttempt opts) 1
      in case validateOptions (opt_endpoint opts) mcs att dba of
           Some e \<Rightarrow> Inl e
         | None \<Rightarrow> Inr \<lparr>
             endpoint = opt_endpoint opts,
             headers = (case opt_headers opts of None \<Rightarrow> Map.empty | Some h \<Rightarrow> h),
             maxChunkSize = mcs,
             attempts = att,
             delayBeforeAttempt = dba,
             chunk = None,
             chunkCount = 0,
             maxChunkByteSize = mcs * 1024,
             endpointValue = (case opt_endpoint opts of Url s \<Rightarrow> Some s | Resolver \<Rightarrow> None),
             attemptCount = 0,
             offline = False,
             paused = False,
             blob = None,
             allChunksReceived = False,
             lastIndex = 0,
             hasWindow = window,
             starting = True,
             polls = 0,
             retries = [],
             inflight = 0,
             out = [] \<rparr>)"

subsection \<open>Methods\<close>

definition addChunk :: "blob \<Rightarrow> upchunk \<Rightarrow> upchunk" where
  "addChunk c u =
     (case blob u of
        Some b \<Rightarrow> u\<lparr>blob := Some (b @ c)\<rparr>
      | None \<Rightarrow> u\<lparr>blob := Some c\<rparr>)"

definition finish :: "upchunk \<Rightarrow> upchunk" where
  "finish u = u\<lparr>allChunksReceived := True\<rparr>"

definition pause :: "upchunk \<Rightarrow> upchunk" where
  "pause u = u\<lparr>paused := True\<rparr>"

definition dispatch :: "event_name \<Rightarrow> detail \<Rightarrow> upchunk \<Rightarrow> upchunk" where
  "dispatch eventName d u = u\<lparr>out := out u @ [Dispatch eventName d]\<rparr>"

text \<open>
  \<^verbatim>\<open>getChunk\<close> returns a promise and arms the first \<^verbatim>\<open>checkAndResolve\<close> timer;
  nothing is looked at before that timer fires.
\<close>

definition getChunk :: "upchunk \<Rightarrow> upchunk" where
  "getChunk u = u\<lparr>polls := polls u + 1\<rparr>"

definition sendChunks :: "upchunk \<Rightarrow> upchunk" where
  "sendChunks u = (if paused u \<or> offline u then u else getChunk u)"

definition resume :: "upchunk \<Rightarrow> upchunk" where
  "resume u = (if paused u then sendChunks (u\<lparr>paused := False\<rparr>) else u)"

definition nearestMultiple :: "int \<Rightarrow> int" where
  "nearestMultiple size' = MIN_CHUNK_SIZE * (size' div MIN_CHUNK_SIZE)"

definition manageRetries :: "upchunk \<Rightarrow> upchunk" where
  "manageRetries u =
     (if attemptCount u < attempts u then
        (let u1 = u\<lparr>attemptCount := attemptCount u + 1\<rparr>;
             u2 = u1\<lparr>retries := retries u1 @ [delayBeforeAttempt u1 * 1000]\<rparr>
         in dispatch EvAttemptFailure
              (AttemptFailureDetail
                 (''An error occured uploading chunk '' @ show_nat (chunkCount u2) @ ''. ''
                    @ show_int (attempts u2 - attemptCount u2) @ '' retries left.'')
                 (chunkCount u2)
                 (attempts u2 - attemptCount u2)) u2)
      else
        dispatch EvError
          (RetriesExhaustedDetail
             (''An error occured uploading chunk '' @ show_nat (chunkCount u)
                @ ''. No more retries, stopping upload'')
             (chunkCount u)
             (attemptCount u)) u)"

text \<open>The \<^verbatim>\<open>catch\<close> callback of the promise chain in \<^verbatim>\<open>sendChunks\<close>.\<close>

definition onCatch :: "upchunk \<Rightarrow> upchunk" where
  "onCatch u = (if paused u \<or> offline u then u else manageRetries u)"

text \<open>
  \<^verbatim>\<open>sendChunk\<close> builds the headers, dispatches \<^verbatim>\<open>attempt\<close> and issues the request.
  It runs inside the promise chain: reading \<^verbatim>\<open>this.chunk.size\<close> or
  \<^verbatim>\<open>this.blob.size\<close> of an undefined field would throw and land in the
  \<^verbatim>\<open>catch\<close> callback.
\<close>

definition sendChunk :: "upchunk \<Rightarrow> upchunk" where
  "sendChunk u =
     (case chunk u of
        None \<Rightarrow> onCatch u
      | Some c \<Rightarrow>
         (let rangeStart = int (lastIndex u);
              rangeEnd = rangeStart + int (length c) - 1
          in if allChunksReceived u \<and> blob u = None then onCatch u
             else
               (let fileSize = (if allChunksReceived u then show_nat (length (the (blob u))) else ''*'');
                    hdrs = (headers u)
                      (''Content-Type'' \<mapsto> ''application/octet-stream'',
                       ''Content-Range'' \<mapsto>
                          ''bytes '' @ show_int rangeStart @ ''-'' @ show_int rangeEnd @ ''/'' @ fileSize);
                    u1 = dispatch EvAttempt
                           (AttemptDetail (chunkCount u) (of_nat (length c) / 1024)) u
                in u1\<lparr>out := out u1 @
                          [Xhr \<lparr>req_headers = hdrs, req_url = endpointValue u1,
                                req_method = ''PUT'', req_body = c\<rparr>],
                       inflight := inflight u1 + 1\<rparr>)))"

text \<open>
  One run of \<^verbatim>\<open>checkAndResolve\<close>. Resolving the promise of \<^verbatim>\<open>getChunk\<close> runs the
  next link of the chain, \<^verbatim>\<open>sendChunk\<close>, in the same turn.
\<close>

definition checkAndResolve :: "upchunk \<Rightarrow> upchunk" where
  "checkAndResolve u =
     (case blob u of
        None \<Rightarrow> u\<lparr>polls := polls u + 1\<rparr>
      | Some b \<Rightarrow>
         (let remainingSize = int (length b) - int (lastIndex u)
          in if allChunksReceived u \<and> remainingSize < MIN_CHUNK_SIZE then
               sendChunk (u\<lparr>chunk :=
                  Some (slice b (int (lastIndex u)) (int (lastIndex u) + remainingSize))\<rparr>)
             else if remainingSize \<ge> MIN_CHUNK_SIZE then
               (let size' = (if remainingSize \<ge> maxChunkByteSize u then maxChunkByteSize u
                            else nearestMultiple remainingSize)
                in sendChunk (u\<lparr>chunk :=
                     Some (slice b (int (lastIndex u)) (int (lastIndex u) + size'))\<rparr>))
             else u\<lparr>polls := polls u + 1\<rparr>))"

text \<open>
  The \<^verbatim>\<open>then\<close> callback of \<^verbatim>\<open>sendChunks\<close> on a response with the given status
  code. On success the source calls \<^verbatim>\<open>sendChunks\<close> (or dispatches \<^verbatim>\<open>success\<close>)
  before it computes and dispatches the progress.
\<close>

definition percentProgress :: "nat \<Rightarrow> nat \<Rightarrow> number" where
  "percentProgress idx tot = number_times (Math_round (number_div idx tot)) 100"

definition onResponse :: "nat \<Rightarrow> upchunk \<Rightarrow> upchunk" where
  "onResponse statusCode u =
     (if statusCode \<in> set SUCCESSFUL_CHUNK_UPLOAD_CODES then
        (let u1 = u\<lparr>chunkCount := chunkCount u + 1\<rparr>
         in case chunk u1 of
              None \<Rightarrow> onCatch u1
            | Some c \<Rightarrow>
               (let u2 = u1\<lparr>lastIndex := lastIndex u1 + length c\<rparr>
                in case blob u2 of
                     None \<Rightarrow> (if allChunksReceived u2 then onCatch u2 else onCatch (sendChunks u2))
                   | Some b \<Rightarrow>
                      (let u3 = (if allChunksReceived u2 \<and> lastIndex u2 \<ge> length b
                                 then dispatch EvSuccess NoDetail u2
                                 else sendChunks u2)
                       in dispatch EvProgress
                            (ProgressDetail (percentProgress (lastIndex u3) (length b))) u3)))
      else if statusCode \<in> set TEMPORARY_ERROR_CODES then
        (if paused u \<or> offline u then u else manageRetries u)
      else
        (if paused u \<or> offline u then u
         else dispatch EvError
                (ServerErrorDetail
                   (''Server responded with '' @ show_nat statusCode @ ''. Stopping upload.'')
                   (chunkCount u)
                   (attemptCount u)) u))"

text \<open>The \<^verbatim>\<open>onprogress\<close> callback that \<^verbatim>\<open>xhrPromise\<close> installs on the upload.\<close>

definition onprogress :: "nat \<Rightarrow> upchunk \<Rightarrow> upchunk" where
  "onprogress loaded u =
     (case blob u of
        None \<Rightarrow> u
      | Some b \<Rightarrow>
          dispatch EvProgress
            (ProgressDetail (number_times (number_div (lastIndex u + loaded) (length b)) 100)) u)"

subsection \<open>Turns of the event loop\<close>

text \<open>
  What the environment can make happen next: a call of a public method, a
  \<^verbatim>\<open>window\<close> event, the resolution of the endpoint, a pending timer firing, an
  outstanding request reporting upload progress or settling. A timer or a request that
  does not exist cannot fire.
\<close>

datatype input =
    AddChunk blob
  | Finish
  | Pause
  | Resume
  | WindowOnline
  | WindowOffline
  | EndpointResolved string
  | PollTick
  | RetryTick
  | XhrProgress nat
  | Settle response

fun fire :: "input \<Rightarrow> upchunk \<Rightarrow> upchunk" where
  "fire (AddChunk c) u = addChunk c u"
| "fire Finish u = finish u"
| "fire Pause u = pause u"
| "fire Resume u = resume u"
| "fire WindowOnline u =
     (if hasWindow u then
        (if \<not> offline u then u
         else sendChunks (dispatch EvOnline NoDetail (u\<lparr>offline := False\<rparr>)))
      else u)"
| "fire WindowOffline u =
     (if hasWindow u then dispatch EvOffline NoDetail (u\<lparr>offline := True\<rparr>) else u)"
| "fire (EndpointResolved v) u =
     (if starting u then
        (case endpoint u of
           Url s \<Rightarrow> sendChunks (u\<lparr>starting := False\<rparr>)
         | Resolver \<Rightarrow> sendChunks (u\<lparr>starting := False, endpointValue := Some v\<rparr>))
      else u)"
| "fire PollTick u =
     (if polls u > 0 then checkAndResolve (u\<lparr>polls := polls u - 1\<rparr>) else u)"
| "fire RetryTick u =
     (case retries u of
        [] \<Rightarrow> u
      | d # ds \<Rightarrow> sendChunks (u\<lparr>retries := ds\<rparr>))"
| "fire (XhrProgress loaded) u = (if inflight u > 0 then onprogress loaded u else u)"
| "fire (Settle r) u =
     (if inflight u > 0 then
        (case r of
           Status statusCode \<Rightarrow> onResponse statusCode (u\<lparr>inflight := inflight u - 1\<rparr>)
         | NetworkError \<Rightarrow> onCatch (u\<lparr>inflight := inflight u - 1\<rparr>))
      else u)"

text \<open>A history of turns, oldest first.\<close>

definition run :: "input list \<Rightarrow> upchunk \<Rightarrow> upchunk" where
  "run ins u = fold fire ins u"

subsection \<open>Observations and sessions\<close>

text \<open>What an observer sees of an upload: the requests issued and the events dispatched.\<close>

fun requests_of :: "action list \<Rightarrow> request list" where
  "requests_of [] = []"
| "requests_of (Xhr r # acts) = r # requests_of acts"
| "requests_of (Dispatch e d # acts) = requests_of acts"

fun events_of :: "action list \<Rightarrow> (event_name \<times> detail) list" where
  "events_of [] = []"
| "events_of (Xhr r # acts) = events_of acts"
| "events_of (Dispatch e d # acts) = (e, d) # events_of acts"

definition requests :: "upchunk \<Rightarrow> request list" where
  "requests u = requests_of (out u)"

definition events :: "upchunk \<Rightarrow> (event_name \<times> detail) list" where
  "events u = events_of (out u)"

definition contentRange :: "request \<Rightarrow> string option" where
  "contentRange r = req_headers r ''Content-Range''"

text \<open>The Content-Range header and the body size of every request, oldest first.\<close>

definition ranges :: "upchunk \<Rightarrow> (string option \<times> nat) list" where
  "ranges u = map (\<lambda>r. (contentRange r, length (req_body r))) (requests u)"

text \<open>
  An upload created outside a browser (no \<^verbatim>\<open>window\<close>) and driven through a history
  of turns; \<open>None\<close> when the constructor throws.
\<close>

definition session :: "options \<Rightarrow> input list \<Rightarrow> upchunk option" where
  "session opts ins =
     (case constructor False opts of Inl e \<Rightarrow> None | Inr u \<Rightarrow> Some (run ins u))"

text \<open>Options with a literal endpoint, a chunk size in kB and an attempt budget.\<close>

definition example_options :: "int \<Rightarrow> int \<Rightarrow> options" where
  "example_options mcs att =
     \<lparr>opt_endpoint = Url ''https://example.test/upload'', opt_headers = None,
      opt_maxChunkSize = Some mcs, opt_attempts = Some att, opt_delayBeforeAttempt = None\<rparr>"

text \<open>Recorded data: \<open>n\<close> zero bytes.\<close>

definition zeros :: "nat \<Rightarrow> blob" where
  "zeros n = replicate n 0"

text \<open>
  The percentage the documentation of the \<^verbatim>\<open>progress\<close> event describes for a
  finished chunk: the share of the bytes uploaded, times 100, rounded.
\<close>

definition roundedPercent :: "nat \<Rightarrow> nat \<Rightarrow> number" where
  "roundedPercent idx tot = Math_round (number_times (number_div idx tot) 100)"

text \<open>
  The object the constructor builds from \<open>example_options\<close>
  (\<open>constructor_example\<close> below).
\<close>

definition example_upload :: "int \<Rightarrow> int \<Rightarrow> upchunk" where
  "example_upload mcs att =
     \<lparr>endpoint = Url ''https://example.test/upload'',
      headers = Map.empty,
      maxChunkSize = mcs,
      attempts = att,
      delayBeforeAttempt = 1,
      chunk = None,
      chunkCount = 0,
      maxChunkByteSize = mcs * 1024,
      endpointValue = Some ''https://example.test/upload'',
      attemptCount = 0,
      offline = False,
      paused = False,
      blob = None,
      allChunksReceived = False,
      lastIndex = 0,
      hasWindow = False,
      starting = True,
      polls = 0,
      retries = [],
      inflight = 0,
      out = []\<rparr>"

text \<open>
  The turns that neither append data nor acknowledge a chunk: everything that can happen
  between a failed attempt and its retry while the source keeps its size.
\<close>

fun keeps_range :: "input \<Rightarrow> bool" where
  "keeps_range (AddChunk c) = False"
| "keeps_range (Settle (Status statusCode)) = (statusCode \<notin> set SUCCESSFUL_CHUNK_UPLOAD_CODES)"
| "keeps_range i = True"

section \<open>Properties\<close>

subsection \<open>Unfolding the methods\<close>

text \<open>
  The definitions with their local constants substituted: the form in which the methods
  are evaluated on concrete uploads.
\<close>

lemma slice_eq:
  "slice b start end =
     take (nat (max ((if end < 0 then max (int (length b) + end) 0 else min end (int (length b)))
                   - (if start < 0 then max (int (length b) + start) 0 else min start (int (length b)))) 0))
          (drop (nat (if start < 0 then max (int (length b) + start) 0 else min start (int (length b)))) b)"
  by (simp add: slice_def Let_def)

lemma constructor_eq:
  "constructor window opts =
     (case validateOptions (opt_endpoint opts) (or_default (opt_maxChunkSize opts) 5120)
             (or_default (opt_attempts opts) 5) (or_default (opt_delayBeforeAttempt opts) 1) of
        Some e \<Rightarrow> Inl e
      | None \<Rightarrow> Inr \<lparr>
          endpoint = opt_endpoint opts,
          headers = (case opt_headers opts of None \<Rightarrow> Map.empty | Some h \<Rightarrow> h),
          maxChunkSize = or_default (opt_maxChunkSize opts) 5120,
          attempts = or_default (opt_attempts opts) 5,
          delayBeforeAttempt = or_default (opt_delayBeforeAttempt opts) 1,
          chunk = None,
          chunkCount = 0,
          maxChunkByteSize = or_default (opt_maxChunkSize opts) 5120 * 1024,
          endpointValue = (case opt_endpoint opts of Url s \<Rightarrow> Some s | Resolver \<Rightarrow> None),
          attemptCount = 0,
          offline = False,
          paused = False,
          blob = None,
          allChunksReceived = False,
          lastIndex = 0,
          hasWindow = window,
          starting = True,
          polls = 0,
          retries = [],
          inflight = 0,
          out = [] \<rparr>)"
  by (simp add: constructor_def Let_def)

lemma manageRetries_eq:
  "manageRetries u =
     (if attemptCount u < attempts u then
        u\<lparr>attemptCount := attemptCount u + 1,
          retries := retries u @ [delayBeforeAttempt u * 1000],
          out := out u @
            [Dispatch EvAttemptFailure
               (AttemptFailureDetail
                  (''An error occured uploading chunk '' @ show_nat (chunkCount u) @ ''. ''
                     @ show_int (attempts u - (attemptCount u + 1)) @ '' retries left.'')
                  (chunkCount u)
                  (attempts u - (attemptCount u + 1)))]\<rparr>
      else
        u\<lparr>out := out u @
            [Dispatch EvError
               (RetriesExhaustedDetail
                  (''An error occured uploading chunk '' @ show_nat (chunkCount u)
                     @ ''. No more retries, stopping upload'')
                  (chunkCount u)
                  (attemptCount u))]\<rparr>)"
  by (simp add: manageRetries_def dispatch_def Let_def)

lemma sendChunk_eq:
  "sendChunk u =
     (case chunk u of
        None \<Rightarrow> onCatch u
      | Some c \<Rightarrow>
          if allChunksReceived u \<and> blob u = None then onCatch u
          else u\<lparr>out := out u @
                    [Dispatch EvAttempt (AttemptDetail (chunkCount u) (of_nat (length c) / 1024)),
                     Xhr \<lparr>req_headers = (headers u)
                            (''Content-Type'' \<mapsto> ''application/octet-stream'',
                             ''Content-Range'' \<mapsto>
                                ''bytes '' @ show_int (int (lastIndex u)) @ ''-''
                                  @ show_int (int (lastIndex u) + int (length c) - 1) @ ''/''
                                  @ (if allChunksReceived u then show_nat (length (the (blob u)))
                                     else ''*'')),
                          req_url = endpointValue u, req_method = ''PUT'', req_body = c\<rparr>],
                  inflight := inflight u + 1\<rparr>)"
  by (simp add: sendChunk_def dispatch_def Let_def split: option.split)

lemma checkAndResolve_eq:
  "checkAndResolve u =
     (case blob u of
        None \<Rightarrow> u\<lparr>polls := polls u + 1\<rparr>
      | Some b \<Rightarrow>
          if allChunksReceived u \<and> int (length b) - int (lastIndex u) < MIN_CHUNK_SIZE then
            sendChunk (u\<lparr>chunk :=
              Some (slice b (int (lastIndex u))
                      (int (lastIndex u) + (int (length b) - int (lastIndex u))))\<rparr>)
          else if int (length b) - int (lastIndex u) \<ge> MIN_CHUNK_SIZE then
            sendChunk (u\<lparr>chunk :=
              Some (slice b (int (lastIndex u))
                      (int (lastIndex u) +
                        (if int (length b) - int (lastIndex u) \<ge> maxChunkByteSize u
                         then maxChunkByteSize u
                         else nearestMultiple (int (length b) - int (lastIndex u)))))\<rparr>)
          else u\<lparr>polls := polls u + 1\<rparr>)"
  by (simp add: checkAndResolve_def Let_def split: option.split)

lemma onResponse_eq:
  "onResponse statusCode u =
     (if statusCode \<in> set SUCCESSFUL_CHUNK_UPLOAD_CODES then
        (case chunk u of
           None \<Rightarrow> onCatch (u\<lparr>chunkCount := chunkCount u + 1\<rparr>)
         | Some c \<Rightarrow>
            (case blob u of
               None \<Rightarrow>
                 (if allChunksReceived u
                  then onCatch (u\<lparr>chunkCount := chunkCount u + 1,
                                  lastIndex := lastIndex u + length c\<rparr>)
                  else onCatch (sendChunks (u\<lparr>chunkCount := chunkCount u + 1,
                                              lastIndex := lastIndex u + length c\<rparr>)))
             | Some b \<Rightarrow>
                 (if allChunksReceived u \<and> lastIndex u + length c \<ge> length b
                  then u\<lparr>chunkCount := chunkCount u + 1,
                         lastIndex := lastIndex u + length c,
                         out := out u @
                           [Dispatch EvSuccess NoDetail,
                            Dispatch EvProgress
                              (ProgressDetail (percentProgress (lastIndex u + length c) (length b)))]\<rparr>
                  else (sendChunks (u\<lparr>chunkCount := chunkCount u + 1,
                                      lastIndex := lastIndex u + length c\<rparr>))
                        \<lparr>out := out u @
                           [Dispatch EvProgress
                              (ProgressDetail (percentProgress (lastIndex u + length c) (length b)))]\<rparr>)))
      else if statusCode \<in> set TEMPORARY_ERROR_CODES then
        (if paused u \<or> offline u then u else manageRetries u)
      else
        (if paused u \<or> offline u then u
         else u\<lparr>out := out u @
                [Dispatch EvError
                   (ServerErrorDetail
                      (''Server responded with '' @ show_nat statusCode @ ''. Stopping upload.'')
                      (chunkCount u)
                      (attemptCount u))]\<rparr>))"
  by (simp add: onResponse_def dispatch_def sendChunks_def getChunk_def Let_def split: option.split)

lemmas eval_simps =
  constructor_eq validateOptions_def or_default_def addChunk_def finish_def pause_def resume_def
  dispatch_def getChunk_def sendChunks_def nearestMultiple_def manageRetries_eq onCatch_def
  sendChunk_eq checkAndResolve_eq percentProgress_def onResponse_eq onprogress_def
  slice_eq MIN_CHUNK_SIZE_def SUCCESSFUL_CHUNK_UPLOAD_CODES_def TEMPORARY_ERROR_CODES_def
  run_def session_def example_options_def example_upload_def zeros_def requests_def events_def
  ranges_def contentRange_def number_div_def roundedPercent_def show_int_def digit_def
  show_nat.simps floor_eq_iff

subsection \<open>Construction\<close>

lemma constructor_example:
  "0 < mcs \<Longrightarrow> mcs mod 256 = 0 \<Longrightarrow> 0 < att \<Longrightarrow>
   constructor False (example_options mcs att) = Inr (example_upload mcs att)"
  by (auto simp add: constructor_eq validateOptions_def or_default_def example_options_def
        example_upload_def)

lemma or_default_nonzero: "d \<noteq> 0 \<Longrightarrow> or_default v d \<noteq> 0"
  by (simp add: or_default_def split: option.split)

lemma constructor_maxChunkByteSize:
  assumes "constructor window opts = Inr u0"
  shows "0 < maxChunkByteSize u0 \<and> MIN_CHUNK_SIZE dvd maxChunkByteSize u0"
proof -
  define mcs where "mcs = or_default (opt_maxChunkSize opts) 5120"
  have nz: "mcs \<noteq> 0" unfolding mcs_def by (rule or_default_nonzero) simp
  from assms have valid: "validateOptions (opt_endpoint opts) mcs
      (or_default (opt_attempts opts) 5) (or_default (opt_delayBeforeAttempt opts) 1) = None"
    unfolding mcs_def by (simp add: constructor_eq split: option.splits)
  from valid nz have ok: "0 < mcs" "mcs mod 256 = 0"
    by (auto simp add: validateOptions_def split: if_splits)
  from assms valid have m: "maxChunkByteSize u0 = mcs * 1024"
    unfolding mcs_def by (auto simp add: constructor_eq)
  from ok(2) have "256 dvd mcs" by (simp add: mod_eq_0_iff_dvd)
  then have "256 * 1024 dvd mcs * 1024" by (rule mult_dvd_mono) simp
  with ok m show ?thesis by (simp add: MIN_CHUNK_SIZE_def)
qed

subsection \<open>Requests and events of a history\<close>

lemma requests_of_append: "requests_of (xs @ ys) = requests_of xs @ requests_of ys"
  by (induction xs rule: requests_of.induct) simp_all

lemma events_of_append: "events_of (xs @ ys) = events_of xs @ events_of ys"
  by (induction xs rule: events_of.induct) simp_all

subsection \<open>Slices\<close>

lemma slice_from: "0 \<le> n \<Longrightarrow> slice b (int i) (int i + n) = take (nat n) (drop i b)"
  by (cases "i \<le> length b") (auto simp: slice_eq min_def max_def)

lemma slice_to_end: "slice b (int i) (int (length b)) = drop i b"
  by (cases "i \<le> length b") (auto simp: slice_eq min_def max_def)

subsection \<open>Rendering\<close>

lemma digit_not_star: "d < 10 \<Longrightarrow> digit d \<noteq> CHR ''*''"
proof -
  assume "d < 10"
  then have "d \<in> {0, 1, 2, 3, 4, 5, 6, 7, 8, 9}" by auto
  then show ?thesis by (auto simp add: digit_def)
qed

lemma last_show_nat: "last (show_nat n) = digit (n mod 10)"
  by (subst show_nat.simps) simp

lemma show_nat_not_star: "show_nat n \<noteq> ''*''"
proof
  assume "show_nat n = ''*''"
  then have "last (show_nat n) = CHR ''*''" by simp
  then show False using digit_not_star [of "n mod 10"] by (simp add: last_show_nat)
qed

subsection \<open>A poll that issues a request\<close>

lemma sendChunk_Some:
  "chunk v = Some c \<Longrightarrow> blob v = Some b \<Longrightarrow>
   sendChunk v =
     v\<lparr>out := out v @
          [Dispatch EvAttempt (AttemptDetail (chunkCount v) (of_nat (length c) / 1024)),
           Xhr \<lparr>req_headers = (headers v)
                  (''Content-Type'' \<mapsto> ''application/octet-stream'',
                   ''Content-Range'' \<mapsto>
                      ''bytes '' @ show_int (int (lastIndex v)) @ ''-''
                        @ show_int (int (lastIndex v) + int (length c) - 1) @ ''/''
                        @ (if allChunksReceived v then show_nat (length b) else ''*'')),
                req_url = endpointValue v, req_method = ''PUT'', req_body = c\<rparr>],
        inflight := inflight v + 1\<rparr>"
  by (simp add: sendChunk_eq)


lemma poll_request:
  assumes "requests (fire PollTick u) = requests u @ [r]"
  shows "\<exists>b. blob u = Some b \<and>
    ((allChunksReceived u \<and> int (length b) - int (lastIndex u) < MIN_CHUNK_SIZE)
      \<or> MIN_CHUNK_SIZE \<le> int (length b) - int (lastIndex u)) \<and>
    req_body r =
      slice b (int (lastIndex u))
        (int (lastIndex u) +
          (if allChunksReceived u \<and> int (length b) - int (lastIndex u) < MIN_CHUNK_SIZE
           then int (length b) - int (lastIndex u)
           else if maxChunkByteSize u \<le> int (length b) - int (lastIndex u)
           then maxChunkByteSize u
           else nearestMultiple (int (length b) - int (lastIndex u)))) \<and>
    contentRange r =
      Some (''bytes '' @ show_int (int (lastIndex u)) @ ''-''
              @ show_int (int (lastIndex u) + int (length (req_body r)) - 1) @ ''/''
              @ (if allChunksReceived u then show_nat (length b) else ''*'')) \<and>
    fire PollTick u =
      u\<lparr>polls := polls u - 1, chunk := Some (req_body r),
        out := out u @
          [Dispatch EvAttempt (AttemptDetail (chunkCount u) (of_nat (length (req_body r)) / 1024)),
           Xhr r],
        inflight := inflight u + 1\<rparr>"
proof (cases "polls u > 0")
  case False
  with assms show ?thesis by simp
next
  case pending: True
  show ?thesis
  proof (cases "blob u")
    case None
    with assms pending show ?thesis
      by (simp add: checkAndResolve_eq requests_def)
  next
    case (Some b)
    let ?rem = "int (length b) - int (lastIndex u)"
    let ?v = "u\<lparr>polls := polls u - 1\<rparr>"
    consider (final) "allChunksReceived u \<and> ?rem < MIN_CHUNK_SIZE"
      | (full) "\<not> (allChunksReceived u \<and> ?rem < MIN_CHUNK_SIZE)" "MIN_CHUNK_SIZE \<le> ?rem"
      | (wait) "\<not> (allChunksReceived u \<and> ?rem < MIN_CHUNK_SIZE)" "\<not> MIN_CHUNK_SIZE \<le> ?rem"
      by blast
    then show ?thesis
    proof cases
      case wait
      with assms pending Some show ?thesis
        by (simp add: checkAndResolve_eq requests_def)
    next
      case final
      let ?c = "slice b (int (lastIndex u)) (int (lastIndex u) + ?rem)"
      have step: "fire PollTick u = sendChunk (?v\<lparr>chunk := Some ?c\<rparr>)"
        using pending Some final by (simp add: checkAndResolve_eq)
      show ?thesis
        using assms Some final unfolding step
        by (auto simp add: sendChunk_Some requests_def requests_of_append contentRange_def)
    next
      case full
      let ?c = "slice b (int (lastIndex u))
                  (int (lastIndex u) +
                     (if maxChunkByteSize u \<le> ?rem then maxChunkByteSize u
                      else nearestMultiple ?rem))"
      have step: "fire PollTick u = sendChunk (?v\<lparr>chunk := Some ?c\<rparr>)"
        using pending Some full by (simp add: checkAndResolve_eq)
      show ?thesis
        using assms Some full unfolding step
        by (auto simp add: sendChunk_Some requests_def requests_of_append contentRange_def)
    qed
  qed
qed

lemma poll_issues:
  assumes "polls u > 0" and "blob u = Some b"
    and "(allChunksReceived u \<and> int (length b) - int (lastIndex u) < MIN_CHUNK_SIZE)
          \<or> MIN_CHUNK_SIZE \<le> int (length b) - int (lastIndex u)"
  shows "\<exists>r. requests (fire PollTick u) = requests u @ [r]"
proof -
  obtain c where "fire PollTick u = sendChunk (u\<lparr>polls := polls u - 1, chunk := Some c\<rparr>)"
    using assms by (cases "allChunksReceived u \<and> int (length b) - int (lastIndex u) < MIN_CHUNK_SIZE")
      (simp_all add: checkAndResolve_eq)
  then show ?thesis
    using assms(2) by (simp add: sendChunk_Some requests_def requests_of_append)
qed

subsection \<open>What a turn leaves unchanged\<close>

lemma manageRetries_frame[simp]:
  "blob (manageRetries u) = blob u"
  "lastIndex (manageRetries u) = lastIndex u"
  "maxChunkByteSize (manageRetries u) = maxChunkByteSize u"
  "allChunksReceived (manageRetries u) = allChunksReceived u"
  by (simp_all add: manageRetries_eq)

lemma onCatch_frame [simp]:
  "blob (onCatch u) = blob u"
  "lastIndex (onCatch u) = lastIndex u"
  "maxChunkByteSize (onCatch u) = maxChunkByteSize u"
  "allChunksReceived (onCatch u) = allChunksReceived u"
  by (simp_all add: onCatch_def)

lemma sendChunks_frame [simp]:
  "blob (sendChunks u) = blob u"
  "lastIndex (sendChunks u) = lastIndex u"
  "maxChunkByteSize (sendChunks u) = maxChunkByteSize u"
  "allChunksReceived (sendChunks u) = allChunksReceived u"
  by (simp_all add: sendChunks_def getChunk_def)

lemma sendChunk_frame [simp]:
  "blob (sendChunk u) = blob u"
  "lastIndex (sendChunk u) = lastIndex u"
  "maxChunkByteSize (sendChunk u) = maxChunkByteSize u"
  "allChunksReceived (sendChunk u) = allChunksReceived u"
  by (simp_all add: sendChunk_eq split: option.split)

lemma checkAndResolve_frame [simp]:
  "blob (checkAndResolve u) = blob u"
  "lastIndex (checkAndResolve u) = lastIndex u"
  "maxChunkByteSize (checkAndResolve u) = maxChunkByteSize u"
  "allChunksReceived (checkAndResolve u) = allChunksReceived u"
  by (simp_all add: checkAndResolve_eq split: option.split)

lemma onResponse_frame [simp]:
  "blob (onResponse statusCode u) = blob u"
  "maxChunkByteSize (onResponse statusCode u) = maxChunkByteSize u"
  "allChunksReceived (onResponse statusCode u) = allChunksReceived u"
  by (simp_all add: onResponse_eq split: option.split)

lemma onResponse_failure_lastIndex:
  "statusCode \<notin> set SUCCESSFUL_CHUNK_UPLOAD_CODES \<Longrightarrow>
   lastIndex (onResponse statusCode u) = lastIndex u"
  by (simp add: onResponse_eq)

lemma fire_maxChunkByteSize: "maxChunkByteSize (fire i u) = maxChunkByteSize u"
  by (cases i)
    (simp_all add: addChunk_def finish_def pause_def resume_def dispatch_def onprogress_def
       split: option.split list.split response.split endpoint.split)

lemma run_maxChunkByteSize: "maxChunkByteSize (run ins u) = maxChunkByteSize u"
  unfolding run_def by (induction ins arbitrary: u) (simp_all add: fire_maxChunkByteSize)

lemma fire_keeps_blob: "keeps_range i \<Longrightarrow> blob (fire i u) = blob u"
  by (cases i rule: keeps_range.cases)
    (simp_all add: finish_def pause_def resume_def dispatch_def onprogress_def
       split: option.split list.split endpoint.split)

lemma fire_keeps_lastIndex: "keeps_range i \<Longrightarrow> lastIndex (fire i u) = lastIndex u"
  by (cases i rule: keeps_range.cases)
    (simp_all add: finish_def pause_def resume_def dispatch_def onprogress_def
       onResponse_failure_lastIndex split: option.split list.split endpoint.split)

lemma fire_keeps_complete:
  "keeps_range i \<Longrightarrow> allChunksReceived u \<Longrightarrow> allChunksReceived (fire i u)"
  by (cases i rule: keeps_range.cases)
    (simp_all add: finish_def pause_def resume_def dispatch_def onprogress_def
       split: option.split list.split endpoint.split)

lemma run_keeps_range:
  assumes "list_all keeps_range ins"
  shows "blob (run ins u) = blob u \<and> lastIndex (run ins u) = lastIndex u
    \<and> (allChunksReceived u \<longrightarrow> allChunksReceived (run ins u))"
  using assms unfolding run_def
  by (induction ins arbitrary: u)
    (simp_all add: fire_keeps_blob fire_keeps_lastIndex fire_keeps_complete)

subsection \<open>Progress after a successful chunk\<close>

text \<open>
  Rounding the quotient before the multiplication leaves two values only, as long as
  the cursor is within the source.
\<close>

lemma percentProgress_zero_or_hundred:
  assumes "0 < tot" and "idx \<le> tot"
  shows "percentProgress idx tot = Num 0 \<or> percentProgress idx tot = Num 100"
proof -
  define q :: rat where "q = of_nat idx / of_nat tot"
  have "0 \<le> q" "q \<le> 1"
    using assms by (simp_all add: q_def)
  then have "0 \<le> \<lfloor>q + 1 / 2\<rfloor>" "\<lfloor>q + 1 / 2\<rfloor> < 2"
    by (simp_all add: floor_less_iff)
  then have "\<lfloor>q + 1 / 2\<rfloor> = 0 \<or> \<lfloor>q + 1 / 2\<rfloor> = 1"
    by linarith
  then show ?thesis
    using assms by (auto simp add: percentProgress_def number_div_def q_def)
qed

text \<open>
  Claim C1. After a successful chunk response on a source of known size the progress
  event should carry the rounded percentage of the bytes uploaded,
  \<open>round(cursor / size * 100)\<close>. The code rounds the quotient first and multiplies
  afterwards: for a finished source of 1 MiB sent in chunks of 256 KiB, the first
  successful chunk moves the cursor to 262144 and the progress event dispatched carries 0,
  where the rounded percentage is 25.
\<close>

theorem C1_progress_rounds_before_scaling:
  "map_option events
     (session (example_options 256 5)
        [EndpointResolved [], AddChunk (zeros 1048576), Finish, PollTick, Settle (Status 200)])
     = Some [(EvAttempt, AttemptDetail 0 256), (EvProgress, ProgressDetail (Num 0))]
   \<and> map_option lastIndex
     (session (example_options 256 5)
        [EndpointResolved [], AddChunk (zeros 1048576), Finish, PollTick, Settle (Status 200)])
     = Some 262144
   \<and> roundedPercent 262144 1048576 = Num 25"
  by (simp add: eval_simps)

subsection \<open>The retry budget\<close>

text \<open>
  The success branch of \<^verbatim>\<open>sendChunks\<close> advances the chunk count and the cursor and
  leaves \<^verbatim>\<open>attemptCount\<close> as it is.
\<close>

lemma success_keeps_attemptCount:
  assumes "statusCode \<in> set SUCCESSFUL_CHUNK_UPLOAD_CODES"
    and "chunk u = Some c" and "blob u = Some b"
  shows "attemptCount (onResponse statusCode u) = attemptCount u"
  using assms by (simp add: onResponse_eq sendChunks_def getChunk_def)

text \<open>
  Claim C2. The retry budget should be per chunk: \<^verbatim>\<open>attemptCount\<close> back at 0 once a
  chunk has succeeded, so that every chunk tolerates up to \<^verbatim>\<open>attempts\<close> failures
  whatever happened to earlier chunks. The code never resets the counter. With
  \<^verbatim>\<open>attempts = 1\<close> and a finished source of two chunks of 256 KiB: chunk 0 fails
  once with 503, is retried and succeeds, and the counter is still 1; the first
  failure of chunk 1 is then answered with the \<^verbatim>\<open>error\<close> event and no retry is
  scheduled.
\<close>

theorem C2_attempt_count_survives_success:
  "map_option attemptCount
     (session (example_options 256 1)
        [EndpointResolved [], AddChunk (zeros 524288), Finish, PollTick, Settle (Status 503),
         RetryTick, PollTick, Settle (Status 200)])
     = Some 1
   \<and> map_option events
     (session (example_options 256 1)
        [EndpointResolved [], AddChunk (zeros 524288), Finish, PollTick, Settle (Status 503),
         RetryTick, PollTick, Settle (Status 200), PollTick, Settle (Status 503)])
     = Some [(EvAttempt, AttemptDetail 0 256),
             (EvAttemptFailure,
                AttemptFailureDetail ''An error occured uploading chunk 0. 0 retries left.'' 0 0),
             (EvAttempt, AttemptDetail 0 256),
             (EvProgress, ProgressDetail (Num 100)),
             (EvAttempt, AttemptDetail 1 256),
             (EvError,
                RetriesExhaustedDetail
                  ''An error occured uploading chunk 1. No more retries, stopping upload'' 1 1)]
   \<and> map_option retries
     (session (example_options 256 1)
        [EndpointResolved [], AddChunk (zeros 524288), Finish, PollTick, Settle (Status 503),
         RetryTick, PollTick, Settle (Status 200), PollTick, Settle (Status 503)])
     = Some []"
  by (simp add: eval_simps)

subsection \<open>The range of a retried chunk\<close>

text \<open>
  Claim C3, as the code has it. A retry goes through \<^verbatim>\<open>sendChunks\<close> and
  \<^verbatim>\<open>getChunk\<close> again, so the chunk is selected anew from the source as it is then.
  The retried request starts at the same cursor and, as long as no data has been
  appended since the failed attempt, covers exactly the same bytes, also when the
  source has been marked complete in between. Here \<open>r\<close> is the request of the failed
  attempt and \<open>ins\<close> what happens before the poll of the retry: the failure, the backoff
  timer, and any other turn that neither appends data nor acknowledges a chunk.
\<close>

theorem C3_retry_range_without_append:
  assumes "requests (fire PollTick u) = requests u @ [r]"
    and "list_all keeps_range ins"
    and "polls (run ins (fire PollTick u)) > 0"
  shows "\<exists>r'. requests (fire PollTick (run ins (fire PollTick u)))
                 = requests (run ins (fire PollTick u)) @ [r']
              \<and> req_body r' = req_body r
              \<and> lastIndex (run ins (fire PollTick u)) = lastIndex u"
proof -
  define u1 where "u1 = fire PollTick u"
  define u2 where "u2 = run ins u1"
  from poll_request [OF assms(1)] obtain b where b: "blob u = Some b"
    and sel: "(allChunksReceived u \<and> int (length b) - int (lastIndex u) < MIN_CHUNK_SIZE)
               \<or> MIN_CHUNK_SIZE \<le> int (length b) - int (lastIndex u)"
    and body: "req_body r =
      slice b (int (lastIndex u))
        (int (lastIndex u) +
          (if allChunksReceived u \<and> int (length b) - int (lastIndex u) < MIN_CHUNK_SIZE
           then int (length b) - int (lastIndex u)
           else if maxChunkByteSize u \<le> int (length b) - int (lastIndex u)
           then maxChunkByteSize u
           else nearestMultiple (int (length b) - int (lastIndex u))))"
    by blast
  have same1: "blob u1 = Some b" "lastIndex u1 = lastIndex u"
    "maxChunkByteSize u1 = maxChunkByteSize u" "allChunksReceived u1 = allChunksReceived u"
    using b by (simp_all add: u1_def)
  have same2: "blob u2 = Some b" "lastIndex u2 = lastIndex u"
    "maxChunkByteSize u2 = maxChunkByteSize u"
    "allChunksReceived u \<Longrightarrow> allChunksReceived u2"
    using run_keeps_range [OF assms(2), of u1] same1
    by (simp_all add: u2_def run_maxChunkByteSize)
  have sel2: "(allChunksReceived u2 \<and> int (length b) - int (lastIndex u2) < MIN_CHUNK_SIZE)
               \<or> MIN_CHUNK_SIZE \<le> int (length b) - int (lastIndex u2)"
    using sel same2 by auto
  from assms(3) have "polls u2 > 0" by (simp add: u2_def u1_def)
  from poll_issues [OF this same2(1) sel2]
  obtain r' where r': "requests (fire PollTick u2) = requests u2 @ [r']" by blast
  from poll_request [OF r'] same2(1)
  have body': "req_body r' =
      slice b (int (lastIndex u2))
        (int (lastIndex u2) +
          (if allChunksReceived u2 \<and> int (length b) - int (lastIndex u2) < MIN_CHUNK_SIZE
           then int (length b) - int (lastIndex u2)
           else if maxChunkByteSize u2 \<le> int (length b) - int (lastIndex u2)
           then maxChunkByteSize u2
           else nearestMultiple (int (length b) - int (lastIndex u2))))"
    by (auto simp del: fire.simps)
  have "req_body r' = req_body r"
    unfolding body body' using sel same2 by auto
  with r' same2(2) show ?thesis
    unfolding u2_def u1_def by blast
qed

text \<open>
  300000 bytes recorded, the first chunk of 262144 bytes answered with 503, and
  \<^verbatim>\<open>finish()\<close> called during the backoff: the retry sends the same 262144 bytes.
\<close>

theorem C3_retry_range_without_append_witness:
  "requests (fire PollTick (run [EndpointResolved [], AddChunk (zeros 300000)] (example_upload 5120 5)))
     = requests (run [EndpointResolved [], AddChunk (zeros 300000)] (example_upload 5120 5))
       @ [last (requests (fire PollTick
            (run [EndpointResolved [], AddChunk (zeros 300000)] (example_upload 5120 5))))]
   \<and> list_all keeps_range [Settle (Status 503), Finish, RetryTick]
   \<and> polls (run [Settle (Status 503), Finish, RetryTick]
        (fire PollTick (run [EndpointResolved [], AddChunk (zeros 300000)] (example_upload 5120 5))))
       > 0
   \<and> (\<exists>r'. requests (fire PollTick (run [Settle (Status 503), Finish, RetryTick]
               (fire PollTick
                  (run [EndpointResolved [], AddChunk (zeros 300000)] (example_upload 5120 5)))))
            = requests (run [Settle (Status 503), Finish, RetryTick]
               (fire PollTick
                  (run [EndpointResolved [], AddChunk (zeros 300000)] (example_upload 5120 5))))
              @ [r']
          \<and> req_body r' = zeros 262144)"
proof -
  let ?u = "run [EndpointResolved [], AddChunk (zeros 300000)] (example_upload 5120 5)"
  let ?ins = "[Settle (Status 503), Finish, RetryTick]"
  have h: "requests (fire PollTick ?u) = requests ?u @ [last (requests (fire PollTick ?u))]"
    by (simp add: eval_simps)
  have k: "list_all keeps_range ?ins"
    by (simp add: SUCCESSFUL_CHUNK_UPLOAD_CODES_def)
  have p: "polls (run ?ins (fire PollTick ?u)) > 0"
    by (simp add: eval_simps)
  have body: "req_body (last (requests (fire PollTick ?u))) = zeros 262144"
    by (simp add: eval_simps)
  from C3_retry_range_without_append [OF h k p] h k p body show ?thesis
    by (auto simp del: fire.simps)
qed

text \<open>
  The claim as stated also covers a source that has grown. With chunks of at most
  512 KiB, 256 KiB recorded and the first attempt answered with 503, another 256 KiB
  arrive during the backoff: the failed attempt covered bytes 0 to 262143, the retry
  covers bytes 0 to 524287.
\<close>

theorem C3_retry_after_append_counterexample:
  "map_option ranges
     (session (example_options 512 5)
        [EndpointResolved [], AddChunk (zeros 262144), PollTick, Settle (Status 503),
         AddChunk (zeros 262144), RetryTick, PollTick])
   = Some [(Some ''bytes 0-262143/*'', 262144), (Some ''bytes 0-524287/*'', 524288)]"
  by (simp add: eval_simps)

subsection \<open>Chunk sizes while the source is incomplete\<close>

text \<open>
  Claim C4. In every state an upload can reach from its construction, a chunk selected
  while the source is not yet complete has a size that is a positive multiple of
  256 KiB and does not exceed the configured maximum; when the remaining bytes are at
  least one unit of 256 KiB but less than the maximum, the size is the remaining count
  rounded down to the nearest multiple of 256 KiB.
\<close>

theorem C4_incomplete_chunk_sizes:
  assumes "constructor window opts = Inr u0" and "u = run ins u0"
    and "\<not> allChunksReceived u" and "blob u = Some b"
    and "requests (fire PollTick u) = requests u @ [r]"
  shows "0 < length (req_body r)
    \<and> MIN_CHUNK_SIZE dvd int (length (req_body r))
    \<and> int (length (req_body r)) \<le> maxChunkByteSize u
    \<and> (MIN_CHUNK_SIZE \<le> int (length b) - int (lastIndex u)
         \<and> int (length b) - int (lastIndex u) < maxChunkByteSize u \<longrightarrow>
        int (length (req_body r))
          = MIN_CHUNK_SIZE * ((int (length b) - int (lastIndex u)) div MIN_CHUNK_SIZE))"
proof -
  define rem where "rem = int (length b) - int (lastIndex u)"
  define sz where "sz = (if maxChunkByteSize u \<le> rem then maxChunkByteSize u
                         else MIN_CHUNK_SIZE * (rem div MIN_CHUNK_SIZE))"
  have mx: "0 < maxChunkByteSize u" "MIN_CHUNK_SIZE dvd maxChunkByteSize u"
    using constructor_maxChunkByteSize [OF assms(1)] assms(2)
    by (simp_all add: run_maxChunkByteSize)
  have min_pos: "0 < MIN_CHUNK_SIZE" by (simp add: MIN_CHUNK_SIZE_def)
  from poll_request [OF assms(5)] assms(3,4)
  have enough: "MIN_CHUNK_SIZE \<le> rem"
    and body: "req_body r = slice b (int (lastIndex u)) (int (lastIndex u) + sz)"
    by (auto simp add: rem_def sz_def nearestMultiple_def simp del: fire.simps)
  have "MIN_CHUNK_SIZE * (rem div MIN_CHUNK_SIZE) + rem mod MIN_CHUNK_SIZE = rem"
    by (rule mult_div_mod_eq)
  moreover have "0 \<le> rem mod MIN_CHUNK_SIZE"
    using min_pos by simp
  ultimately have down: "MIN_CHUNK_SIZE * (rem div MIN_CHUNK_SIZE) \<le> rem"
    by linarith
  have up: "MIN_CHUNK_SIZE \<le> MIN_CHUNK_SIZE * (rem div MIN_CHUNK_SIZE)"
    using min_pos enough pos_imp_zdiv_pos_iff [of MIN_CHUNK_SIZE rem] by simp
  have sz: "0 < sz" "sz \<le> rem" "sz \<le> maxChunkByteSize u" "MIN_CHUNK_SIZE dvd sz"
    using mx min_pos down up by (auto simp add: sz_def)
  have len: "int (length (req_body r)) = sz"
    using sz(1,2) by (simp add: body slice_from rem_def)
  show ?thesis
    using sz len by (auto simp add: sz_def rem_def)
qed

text \<open>
  Chunks of at most 512 KiB and 300000 bytes recorded so far: the chunk sent is the
  first 262144 bytes.
\<close>

theorem C4_incomplete_chunk_sizes_witness:
  "constructor False (example_options 512 5) = Inr (example_upload 512 5)
   \<and> \<not> allChunksReceived (run [EndpointResolved [], AddChunk (zeros 300000)] (example_upload 512 5))
   \<and> blob (run [EndpointResolved [], AddChunk (zeros 300000)] (example_upload 512 5))
       = Some (zeros 300000)
   \<and> requests (fire PollTick (run [EndpointResolved [], AddChunk (zeros 300000)] (example_upload 512 5)))
       = requests (run [EndpointResolved [], AddChunk (zeros 300000)] (example_upload 512 5))
         @ [last (requests (fire PollTick
              (run [EndpointResolved [], AddChunk (zeros 300000)] (example_upload 512 5))))]
   \<and> MIN_CHUNK_SIZE \<le> int (length (zeros 300000))
         - int (lastIndex (run [EndpointResolved [], AddChunk (zeros 300000)] (example_upload 512 5)))
   \<and> int (length (zeros 300000))
         - int (lastIndex (run [EndpointResolved [], AddChunk (zeros 300000)] (example_upload 512 5)))
       < maxChunkByteSize (run [EndpointResolved [], AddChunk (zeros 300000)] (example_upload 512 5))
   \<and> int (length (req_body (last (requests (fire PollTick
         (run [EndpointResolved [], AddChunk (zeros 300000)] (example_upload 512 5)))))))
       = MIN_CHUNK_SIZE * (300000 div MIN_CHUNK_SIZE)
   \<and> MIN_CHUNK_SIZE * (300000 div MIN_CHUNK_SIZE) = 262144"
proof -
  let ?u = "run [EndpointResolved [], AddChunk (zeros 300000)] (example_upload 512 5)"
  have k: "constructor False (example_options 512 5) = Inr (example_upload 512 5)"
    by (rule constructor_example) simp_all
  have n: "\<not> allChunksReceived ?u"
    by (simp add: eval_simps)
  have b: "blob ?u = Some (zeros 300000)"
    by (simp add: eval_simps)
  have h: "requests (fire PollTick ?u) = requests ?u @ [last (requests (fire PollTick ?u))]"
    by (simp add: eval_simps)
  have facts: "lastIndex ?u = 0" "maxChunkByteSize ?u = 524288" "length (zeros 300000) = 300000"
    by (simp_all add: eval_simps)
  have units: "MIN_CHUNK_SIZE * (300000 div MIN_CHUNK_SIZE) = 262144"
    "MIN_CHUNK_SIZE \<le> 300000"
    by (simp_all add: MIN_CHUNK_SIZE_def)
  from C4_incomplete_chunk_sizes [OF k refl n b h] k n b h facts units show ?thesis
    by (simp del: fire.simps)
qed

subsection \<open>The Content-Range header\<close>

text \<open>
  Claim C5, as the code has it. Every chunk request carries
  \<^verbatim>\<open>Content-Range: bytes {start}-{end}/{total}\<close> with \<open>start\<close> the cursor and \<open>end\<close>
  the cursor plus the chunk size minus one; \<open>total\<close> is the literal source size whenever
  completion has been signalled by the time the request is built, whether the chunk is
  the final one or not, and the character \<^verbatim>\<open>*\<close> exactly when it has not.
\<close>

theorem C5_total_once_complete:
  assumes "blob u = Some b" and "requests (fire PollTick u) = requests u @ [r]"
  shows "contentRange r =
           Some (''bytes '' @ show_int (int (lastIndex u)) @ ''-''
                  @ show_int (int (lastIndex u) + int (length (req_body r)) - 1) @ ''/''
                  @ (if allChunksReceived u then show_nat (length b) else ''*''))
         \<and> ((if allChunksReceived u then show_nat (length b) else ''*'') = ''*''
              \<longleftrightarrow> \<not> allChunksReceived u)"
  using poll_request [OF assms(2)] assms(1)
  by (auto simp add: show_nat_not_star simp del: fire.simps)

text \<open>
  A finished source of 1 MiB sent in chunks of 256 KiB: the first of its four chunks
  names the total.
\<close>

theorem C5_total_once_complete_witness:
  "blob (run [EndpointResolved [], AddChunk (zeros 1048576), Finish] (example_upload 256 5))
     = Some (zeros 1048576)
   \<and> allChunksReceived
       (run [EndpointResolved [], AddChunk (zeros 1048576), Finish] (example_upload 256 5))
   \<and> requests (fire PollTick
        (run [EndpointResolved [], AddChunk (zeros 1048576), Finish] (example_upload 256 5)))
     = requests (run [EndpointResolved [], AddChunk (zeros 1048576), Finish] (example_upload 256 5))
       @ [last (requests (fire PollTick
            (run [EndpointResolved [], AddChunk (zeros 1048576), Finish] (example_upload 256 5))))]
   \<and> contentRange (last (requests (fire PollTick
        (run [EndpointResolved [], AddChunk (zeros 1048576), Finish] (example_upload 256 5)))))
     = Some ''bytes 0-262143/1048576''"
proof -
  let ?u = "run [EndpointResolved [], AddChunk (zeros 1048576), Finish] (example_upload 256 5)"
  have b: "blob ?u = Some (zeros 1048576)"
    by (simp add: eval_simps)
  have h: "requests (fire PollTick ?u) = requests ?u @ [last (requests (fire PollTick ?u))]"
    by (simp add: eval_simps)
  have facts: "allChunksReceived ?u" "lastIndex ?u = 0"
    "length (req_body (last (requests (fire PollTick ?u)))) = 262144"
    by (simp_all add: eval_simps)
  have digits: "show_int 0 = ''0''" "show_int 262143 = ''262143''"
    "show_nat (length (zeros 1048576)) = ''1048576''"
    by (simp_all add: show_int_def show_nat.simps digit_def zeros_def)
  from C5_total_once_complete [OF b h] b h facts digits show ?thesis
    by (simp del: fire.simps)
qed

text \<open>
  The claim as stated wants \<^verbatim>\<open>*\<close> on every chunk but the final one. The same first
  chunk, bytes 0 to 262143 of 1048576, is not the final one and names the total.
\<close>

theorem C5_total_on_first_chunk_counterexample:
  "map_option ranges
     (session (example_options 256 5)
        [EndpointResolved [], AddChunk (zeros 1048576), Finish, PollTick])
   = Some [(Some ''bytes 0-262143/1048576'', 262144)]"
  by (simp add: eval_simps)

subsection \<open>Appending to the source\<close>

text \<open>
  Claim C6, as the code has it. \<^verbatim>\<open>addChunk\<close> never looks at the completion flag and
  never fails: in every state, complete or not, it concatenates the data at the end of
  the bytes stored so far, keeping their order, and leaves the flag and the history
  as they are.
\<close>

theorem C6_append_always_concatenates:
  "blob (fire (AddChunk c) u) = Some ((case blob u of None \<Rightarrow> [] | Some b \<Rightarrow> b) @ c)
   \<and> allChunksReceived (fire (AddChunk c) u) = allChunksReceived u
   \<and> out (fire (AddChunk c) u) = out u"
  by (simp add: addChunk_def split: option.split)

text \<open>
  The claim as stated asks for a failure that leaves the stored bytes unchanged once the
  flag is set. After \<^verbatim>\<open>finish()\<close> the flag is set and the bytes are \<open>[1, 2]\<close>; a
  further \<^verbatim>\<open>addChunk\<close> goes through and the bytes are \<open>[1, 2, 3]\<close>.
\<close>

theorem C6_append_after_finish_counterexample:
  "map_option allChunksReceived (session (example_options 256 5) [AddChunk [1, 2], Finish])
     = Some True
   \<and> map_option blob (session (example_options 256 5) [AddChunk [1, 2], Finish])
     = Some (Some [1, 2])
   \<and> map_option blob (session (example_options 256 5) [AddChunk [1, 2], Finish, AddChunk [3]])
     = Some (Some [1, 2, 3])"
  by (simp add: eval_simps)

subsection \<open>A request that settles while the upload is paused or offline\<close>

text \<open>
  Claim C7, as the code has it. If \<^verbatim>\<open>paused\<close> or \<^verbatim>\<open>offline\<close> is true when an
  outstanding request settles, failure handling is not performed: a network error or a
  status outside the success set changes nothing (no retry bookkeeping, no
  \<^verbatim>\<open>attemptFailure\<close> or \<^verbatim>\<open>error\<close> event). Success handling is performed all the
  same: a status of the success set advances the cursor and the chunk count and
  dispatches \<^verbatim>\<open>progress\<close> (and \<^verbatim>\<open>success\<close> when the source is exhausted); only the
  next chunk is not asked for, the gate of \<^verbatim>\<open>sendChunks\<close> being closed.
\<close>

theorem C7_failure_dropped_success_handled:
  assumes "inflight u > 0" and "paused u \<or> offline u"
  shows "fire (Settle NetworkError) u = u\<lparr>inflight := inflight u - 1\<rparr>
    \<and> (failed \<notin> set SUCCESSFUL_CHUNK_UPLOAD_CODES \<longrightarrow>
          fire (Settle (Status failed)) u = u\<lparr>inflight := inflight u - 1\<rparr>)
    \<and> (ok \<in> set SUCCESSFUL_CHUNK_UPLOAD_CODES \<and> chunk u = Some c \<and> blob u = Some b \<longrightarrow>
          fire (Settle (Status ok)) u =
            u\<lparr>inflight := inflight u - 1,
              chunkCount := chunkCount u + 1,
              lastIndex := lastIndex u + length c,
              out := out u @
                (if allChunksReceived u \<and> length b \<le> lastIndex u + length c
                 then [Dispatch EvSuccess NoDetail] else [])
                @ [Dispatch EvProgress
                     (ProgressDetail (percentProgress (lastIndex u + length c) (length b)))]\<rparr>)"
  using assms by (auto simp add: onCatch_def onResponse_eq sendChunks_def)

text \<open>
  An upload of 512 KiB, paused while its first chunk of 256 KiB is in flight: a 503 or
  a network error leaves no trace, a 200 moves the cursor and reports progress.
\<close>

theorem C7_failure_dropped_success_handled_witness:
  "inflight (run [EndpointResolved [], AddChunk (zeros 524288), PollTick, Pause]
              (example_upload 256 5)) > 0
   \<and> paused (run [EndpointResolved [], AddChunk (zeros 524288), PollTick, Pause]
               (example_upload 256 5))
   \<and> 503 \<notin> set SUCCESSFUL_CHUNK_UPLOAD_CODES
   \<and> 200 \<in> set SUCCESSFUL_CHUNK_UPLOAD_CODES
   \<and> chunk (run [EndpointResolved [], AddChunk (zeros 524288), PollTick, Pause]
              (example_upload 256 5)) = Some (zeros 262144)
   \<and> blob (run [EndpointResolved [], AddChunk (zeros 524288), PollTick, Pause]
             (example_upload 256 5)) = Some (zeros 524288)
   \<and> events (fire (Settle NetworkError)
               (run [EndpointResolved [], AddChunk (zeros 524288), PollTick, Pause]
                  (example_upload 256 5)))
     = [(EvAttempt, AttemptDetail 0 256)]
   \<and> events (fire (Settle (Status 503))
               (run [EndpointResolved [], AddChunk (zeros 524288), PollTick, Pause]
                  (example_upload 256 5)))
     = [(EvAttempt, AttemptDetail 0 256)]
   \<and> events (fire (Settle (Status 200))
               (run [EndpointResolved [], AddChunk (zeros 524288), PollTick, Pause]
                  (example_upload 256 5)))
     = [(EvAttempt, AttemptDetail 0 256), (EvProgress, ProgressDetail (Num 100))]
   \<and> lastIndex (fire (Settle (Status 200))
               (run [EndpointResolved [], AddChunk (zeros 524288), PollTick, Pause]
                  (example_upload 256 5)))
     = 262144"
proof -
  let ?u = "run [EndpointResolved [], AddChunk (zeros 524288), PollTick, Pause]
              (example_upload 256 5)"
  have i: "inflight ?u > 0"
    by (simp add: eval_simps)
  have p: "paused ?u"
    by (simp add: eval_simps)
  have g: "paused ?u \<or> offline ?u"
    using p by simp
  have codes: "503 \<notin> set SUCCESSFUL_CHUNK_UPLOAD_CODES" "200 \<in> set SUCCESSFUL_CHUNK_UPLOAD_CODES"
    by (simp_all add: SUCCESSFUL_CHUNK_UPLOAD_CODES_def)
  have c: "chunk ?u = Some (zeros 262144)"
    by (simp add: eval_simps)
  have b: "blob ?u = Some (zeros 524288)"
    by (simp add: eval_simps)
  have before: "events ?u = [(EvAttempt, AttemptDetail 0 256)]" "lastIndex ?u = 0"
    "allChunksReceived ?u = False"
    by (simp_all add: eval_simps)
  have pct: "percentProgress (0 + length (zeros 262144)) (length (zeros 524288)) = Num 100"
    by (simp add: percentProgress_def number_div_def zeros_def floor_eq_iff)
  from C7_failure_dropped_success_handled
         [OF i g, of 503 200 "zeros 262144" "zeros 524288"] i p codes c b before pct
  show ?thesis
    by (simp add: events_def events_of_append zeros_def del: fire.simps)
qed

text \<open>
  The claim as stated says that success handling is not performed either. In that
  upload the cursor is 0 when \<^verbatim>\<open>pause()\<close> is called with the first chunk in flight;
  once the 200 has arrived the cursor is 262144 and a \<^verbatim>\<open>progress\<close> event has been
  dispatched.
\<close>

theorem C7_success_while_paused_counterexample:
  "map_option paused
     (session (example_options 256 5)
        [EndpointResolved [], AddChunk (zeros 524288), PollTick, Pause]) = Some True
   \<and> map_option lastIndex
     (session (example_options 256 5)
        [EndpointResolved [], AddChunk (zeros 524288), PollTick, Pause]) = Some 0
   \<and> map_option lastIndex
     (session (example_options 256 5)
        [EndpointResolved [], AddChunk (zeros 524288), PollTick, Pause, Settle (Status 200)])
       = Some 262144
   \<and> map_option events
     (session (example_options 256 5)
        [EndpointResolved [], AddChunk (zeros 524288), PollTick, Pause, Settle (Status 200)])
       = Some [(EvAttempt, AttemptDetail 0 256), (EvProgress, ProgressDetail (Num 100))]"
  by (simp add: eval_simps)

subsection \<open>Pausing while the loop waits for data\<close>

text \<open>
  The gate is looked at in one place, the entry of \<^verbatim>\<open>sendChunks\<close>; \<^verbatim>\<open>resume()\<close>
  opens it and enters the loop.
\<close>

lemma sendChunks_gate: "paused u \<or> offline u \<Longrightarrow> sendChunks u = u"
  by (simp add: sendChunks_def)

lemma resume_enters_loop:
  "paused u \<Longrightarrow> \<not> offline u \<Longrightarrow> resume u = u\<lparr>paused := False, polls := polls u + 1\<rparr>"
  by (simp add: resume_def sendChunks_def getChunk_def)

text \<open>
  Claim C8. While \<^verbatim>\<open>paused\<close> is true and no request was in flight when the pause
  took effect, no transport call should be issued, even if enough data for a chunk
  arrives while paused. The poll that \<^verbatim>\<open>getChunk\<close> armed before the pause does not
  look at the gate again: an upload is paused while it waits for data, with no request
  in flight; 256 KiB arrive; the next poll selects the chunk and issues the request,
  and the upload is still paused.
\<close>

theorem C8_request_issued_while_paused:
  "map_option paused (session (example_options 256 5) [EndpointResolved [], Pause]) = Some True
   \<and> map_option inflight (session (example_options 256 5) [EndpointResolved [], Pause]) = Some 0
   \<and> map_option ranges (session (example_options 256 5) [EndpointResolved [], Pause]) = Some []
   \<and> map_option paused
       (session (example_options 256 5)
          [EndpointResolved [], Pause, AddChunk (zeros 262144), PollTick]) = Some True
   \<and> map_option ranges
       (session (example_options 256 5)
          [EndpointResolved [], Pause, AddChunk (zeros 262144), PollTick])
       = Some [(Some ''bytes 0-262143/*'', 262144)]"
  by (simp add: eval_simps)

subsection \<open>Completion at a chunk boundary\<close>

text \<open>
  Claim C9, as the code has it. When the source is complete and no byte remains at the
  cursor, the next poll selects the empty chunk and sends it: a request with an empty
  body whose Content-Range runs from the source size to the source size minus one and
  names the total.
\<close>

theorem C9_empty_final_chunk_is_sent:
  assumes "blob u = Some b" and "allChunksReceived u" and "lastIndex u = length b"
    and "polls u > 0"
  shows "\<exists>r. requests (fire PollTick u) = requests u @ [r] \<and> req_body r = []
           \<and> contentRange r =
               Some (''bytes '' @ show_int (int (length b)) @ ''-''
                      @ show_int (int (length b) - 1) @ ''/'' @ show_nat (length b))"
proof -
  have "int (length b) - int (lastIndex u) < MIN_CHUNK_SIZE"
    using assms(3) by (simp add: MIN_CHUNK_SIZE_def)
  with assms obtain r where r: "requests (fire PollTick u) = requests u @ [r]"
    using poll_issues [of u b] by blast
  from poll_request [OF r] assms have body: "req_body r = []"
    by (auto simp add: slice_to_end MIN_CHUNK_SIZE_def simp del: fire.simps)
  from poll_request [OF r] assms body
  have "contentRange r =
          Some (''bytes '' @ show_int (int (length b)) @ ''-''
                 @ show_int (int (length b) - 1) @ ''/'' @ show_nat (length b))"
    by (auto simp del: fire.simps)
  with body r show ?thesis by blast
qed

text \<open>
  A recording of exactly 256 KiB, uploaded before \<^verbatim>\<open>finish()\<close> is called.
\<close>

theorem C9_empty_final_chunk_is_sent_witness:
  "blob (run [EndpointResolved [], AddChunk (zeros 262144), PollTick, Settle (Status 200), Finish]
           (example_upload 256 5)) = Some (zeros 262144)
   \<and> allChunksReceived
       (run [EndpointResolved [], AddChunk (zeros 262144), PollTick, Settle (Status 200), Finish]
          (example_upload 256 5))
   \<and> lastIndex
       (run [EndpointResolved [], AddChunk (zeros 262144), PollTick, Settle (Status 200), Finish]
          (example_upload 256 5)) = length (zeros 262144)
   \<and> polls
       (run [EndpointResolved [], AddChunk (zeros 262144), PollTick, Settle (Status 200), Finish]
          (example_upload 256 5)) > 0
   \<and> (\<exists>r. requests (fire PollTick
               (run [EndpointResolved [], AddChunk (zeros 262144), PollTick, Settle (Status 200),
                     Finish] (example_upload 256 5)))
            = requests
               (run [EndpointResolved [], AddChunk (zeros 262144), PollTick, Settle (Status 200),
                     Finish] (example_upload 256 5)) @ [r]
          \<and> req_body r = []
          \<and> contentRange r = Some ''bytes 262144-262143/262144'')"
proof -
  let ?u = "run [EndpointResolved [], AddChunk (zeros 262144), PollTick, Settle (Status 200), Finish]
              (example_upload 256 5)"
  have b: "blob ?u = Some (zeros 262144)"
    by (simp add: eval_simps)
  have c: "allChunksReceived ?u"
    by (simp add: eval_simps)
  have l: "lastIndex ?u = length (zeros 262144)"
    by (simp add: eval_simps)
  have p: "polls ?u > 0"
    by (simp add: eval_simps)
  have digits: "show_int (int (length (zeros 262144))) = ''262144''"
    "show_int (int (length (zeros 262144)) - 1) = ''262143''"
    "show_nat (length (zeros 262144)) = ''262144''"
    by (simp_all add: show_int_def show_nat.simps digit_def zeros_def)
  from C9_empty_final_chunk_is_sent [OF b c l p] b c l p digits show ?thesis
    by (simp del: fire.simps)
qed

text \<open>
  The claim as stated says that no request is sent then. In that upload the requests
  are the chunk of 256 KiB and, after \<^verbatim>\<open>finish()\<close>, a second one with no bytes.
\<close>

theorem C9_empty_request_counterexample:
  "map_option ranges
     (session (example_options 256 5)
        [EndpointResolved [], AddChunk (zeros 262144), PollTick, Settle (Status 200),
         Finish, PollTick])
   = Some [(Some ''bytes 0-262143/*'', 262144), (Some ''bytes 262144-262143/262144'', 0)]"
  by (simp add: eval_simps)

subsection \<open>The attempt event\<close>

text \<open>
  Claim C10. For every chunk, the \<^verbatim>\<open>attempt\<close> event dispatched immediately before the
  upload carries a \<^verbatim>\<open>chunkSize\<close> equal to the chunk's byte size divided by 1024 (a
  kilobyte count, fractional for a final chunk that is no multiple of 1 KiB), not the
  byte size: whenever a poll issues a request \<open>r\<close>, what it appends to the history is
  exactly that event, with the size of the body of \<open>r\<close> over 1024, and then \<open>r\<close>.
\<close>

theorem C10_attempt_event_in_kilobytes:
  assumes "requests (fire PollTick u) = requests u @ [r]"
  shows "out (fire PollTick u) =
           out u @ [Dispatch EvAttempt
                      (AttemptDetail (chunkCount u) (of_nat (length (req_body r)) / 1024)),
                    Xhr r]"
  using poll_request [OF assms] by (auto simp del: fire.simps)

text \<open>
  A final chunk of 1000 bytes: the event announces chunk 0 with \<open>chunkSize = 125/128\<close>.
\<close>

theorem C10_attempt_event_in_kilobytes_witness:
  "requests (fire PollTick (run [EndpointResolved [], AddChunk (zeros 1000), Finish] (example_upload 256 5)))
     = requests (run [EndpointResolved [], AddChunk (zeros 1000), Finish] (example_upload 256 5))
       @ [last (requests (fire PollTick
            (run [EndpointResolved [], AddChunk (zeros 1000), Finish] (example_upload 256 5))))]
   \<and> length (req_body (last (requests (fire PollTick
            (run [EndpointResolved [], AddChunk (zeros 1000), Finish] (example_upload 256 5))))))
       = 1000
   \<and> out (fire PollTick (run [EndpointResolved [], AddChunk (zeros 1000), Finish] (example_upload 256 5)))
     = [Dispatch EvAttempt (AttemptDetail 0 (125 / 128)),
        Xhr (last (requests (fire PollTick
            (run [EndpointResolved [], AddChunk (zeros 1000), Finish] (example_upload 256 5)))))]"
proof -
  let ?u = "run [EndpointResolved [], AddChunk (zeros 1000), Finish] (example_upload 256 5)"
  have h: "requests (fire PollTick ?u) = requests ?u @ [last (requests (fire PollTick ?u))]"
    by (simp add: eval_simps)
  have len: "length (req_body (last (requests (fire PollTick ?u)))) = 1000"
    by (simp add: eval_simps)
  have before: "out ?u = []" "chunkCount ?u = 0"
    by (simp_all add: eval_simps)
  from C10_attempt_event_in_kilobytes [OF h] h len before show ?thesis
    by (simp del: fire.simps)
qed

end
